theory Spec2Isabelle
  imports Main "HOL-Library.Sublist"
begin

section \<open>Python string primitives used by the authentication middleware\<close>

text \<open>
  Header values reach the program decoded as Latin-1, one character per byte, so a
  Python \<open>str\<close> is a \<open>string\<close> here and a \<open>bytes\<close> body is one too.
  \<open>isspace\<close> is the whitespace test of \<open>str.split\<close> on that range, and
  \<open>str_lower\<close> is \<open>str.lower\<close> on it (ASCII capitals and the Latin-1 capitals,
  the multiplication sign excepted).
\<close>

type_synonym bytes = string

definition isspace :: "char \<Rightarrow> bool" where
  "isspace c = (of_char c \<in> {9, 10, 11, 12, 13, 28, 29, 30, 31, 32, 133, 160 :: nat})"

definition lower_char :: "char \<Rightarrow> char" where
  "lower_char c =
     (let n = (of_char c :: nat)
      in if (65 \<le> n \<and> n \<le> 90) \<or> (192 \<le> n \<and> n \<le> 222 \<and> n \<noteq> 215)
         then char_of (n + 32) else c)"

definition str_lower :: "string \<Rightarrow> string" where
  "str_lower s = map lower_char s"

text \<open>
  \<open>auth_header.split(None, 1)\<close>: leading whitespace is skipped; an empty rest gives
  no part; otherwise the first word is cut at the next whitespace, the whitespace run
  after it is skipped, and what is left (trailing whitespace included) is the second
  part when it is not empty.
\<close>

definition split_none_1 :: "string \<Rightarrow> string list" where
  "split_none_1 s =
     (let s1 = dropWhile isspace s
      in if s1 = [] then []
         else let w = takeWhile (\<lambda>c. \<not> isspace c) s1;
                  r = dropWhile isspace (dropWhile (\<lambda>c. \<not> isspace c) s1)
              in if r = [] then [w] else [w, r])"

text \<open>
  A Python \<open>str\<close> that may hold code points beyond Latin-1 (a backend header value that
  the client decoded as UTF-8) is the list of its code points. \<open>s.encode("latin-1")\<close>
  raises on a code point above 255 and otherwise gives one byte per code point.
\<close>

type_synonym pystr = "nat list"

definition latin1_encodable :: "pystr \<Rightarrow> bool" where
  "latin1_encodable u = list_all (\<lambda>c. c < 256) u"

definition encode_latin1 :: "pystr \<Rightarrow> bytes" where
  "encode_latin1 u = map char_of u"

text \<open>\<open>str(n)\<close> for a length \<open>n\<close>: its decimal digits.\<close>

fun digits :: "nat \<Rightarrow> string" where
  "digits n = (if n < 10 then [char_of (48 + n)] else digits (n div 10) @ [char_of (48 + n mod 10)])"

section \<open>Configuration, requests, responses\<close>

record config =
  DOCLING_API_TOKEN :: "string option"
  DOCLING_API_URL :: string

definition EXCLUDED_PATHS :: "string list" where
  "EXCLUDED_PATHS = [''/health'', ''/docs'', ''/openapi.json'']"

text \<open>An exception: its class name and its detail text.\<close>

datatype py_exception = PyException string string

text \<open>
  The \<open>wait\<close> query parameter of the status poll route as the framework's validation
  reads it: absent (the default \<open>0.0\<close> applies), a float, or text that is not a float
  (the framework answers 422 itself and the handler does not run). The type \<open>'f\<close>
  stands for Python's \<open>float\<close>.
\<close>

datatype 'f wait_param = WaitAbsent | WaitValue 'f | WaitInvalid

text \<open>
  An inbound request.
  \<^item> \<open>req_path\<close> is the path of the request itself, on which the framework matches the
    routes.
  \<^item> \<open>req_url_path\<close> is what evaluating \<open>request.url.path\<close> gives on this request. The
    framework rebuilds a URL text from the \<open>Host\<close> header (or the server address), the
    path and the query string decoded as UTF-8, and splits that text again; the
    evaluation raises when the query string is not UTF-8 or the text has no valid
    split, and its path is not \<open>req_path\<close> when the \<open>Host\<close> value or the path holds a
    delimiter (\<open>Host: x/health?\<close> on \<open>/convert/file\<close> gives \<open>/health\<close>).
  \<^item> \<open>req_headers\<close> is the header list, names in lower case as the server delivers
    them; \<open>req_body\<close> is the body.
\<close>

record 'f request =
  req_method :: string
  req_path :: string
  req_url_path :: "py_exception + string"
  req_headers :: "(string \<times> string) list"
  req_body :: bytes
  req_wait :: "'f wait_param"

text \<open>\<open>request.headers.get(key)\<close>: the first header whose name is the key in lower case.\<close>

definition headers_get :: "string \<Rightarrow> (string \<times> string) list \<Rightarrow> string option" where
  "headers_get key hs = map_of hs (str_lower key)"

definition headers_get_default :: "string \<Rightarrow> string \<Rightarrow> (string \<times> string) list \<Rightarrow> string" where
  "headers_get_default key d hs = (case headers_get key hs of None \<Rightarrow> d | Some v \<Rightarrow> v)"

text \<open>A JSON body is a dictionary literal with string values.\<close>

type_synonym json = "(string \<times> string) list"

text \<open>
  The responses a caller can receive: \<open>JSONResponse(status_code, content)\<close>; a
  \<open>Response\<close> with its body, its status code and the header list it was initialised
  with; and the plain-text response the framework gives when the middleware raises.
\<close>

datatype response =
  JSONResponse nat json
| Response bytes nat "(string \<times> bytes) list"
| PlainTextResponse nat string

fun response_status :: "response \<Rightarrow> nat" where
  "response_status (JSONResponse code _) = code"
| "response_status (Response _ code _) = code"
| "response_status (PlainTextResponse code _) = code"

datatype http_exception = HTTPException nat string

text \<open>
  \<open>Response(content=body, status_code=status, headers=d)\<close> for a dictionary \<open>d\<close> given
  by its items in order. Each name is put in lower case and each name and value is
  encoded as Latin-1, which raises on a value that has a code point above 255. A
  \<open>content-length\<close> header with the length of the body is appended when the items have
  none and the status is not below 200, 204 or 304. The class sets no media type, so
  no \<open>content-type\<close> is added.
\<close>

definition init_headers :: "bytes \<Rightarrow> nat \<Rightarrow> (string \<times> pystr) list \<Rightarrow> (string \<times> bytes) list" where
  "init_headers body status d =
     (let raw_headers = map (\<lambda>(k, v). (str_lower k, encode_latin1 v)) d;
          populate_content_length = (''content-length'' \<notin> set (map fst raw_headers))
      in if populate_content_length \<and> \<not> (status < 200 \<or> status = 204 \<or> status = 304)
         then raw_headers @ [(''content-length'', digits (length body))]
         else raw_headers)"

definition new_Response ::
  "bytes \<Rightarrow> nat \<Rightarrow> (string \<times> pystr) list \<Rightarrow> py_exception + response" where
  "new_Response body status d =
     (if list_all (\<lambda>(k, v). latin1_encodable v) d
      then Inr (Response body status (init_headers body status d))
      else Inl (PyException ''UnicodeEncodeError''
                  ''latin-1 codec cannot encode character: ordinal not in range(256)''))"

section \<open>The backend, the outbound client and the effects\<close>

text \<open>
  The floating-point operations of the status poll handler are not interpreted: they
  are the fields of \<open>fl\<close>, a parameter of every function that computes with a float.
  \<open>f_lit n\<close> is the literal \<open>n.0\<close>, \<open>f_str\<close> the text an f-string gives a float.
\<close>

record 'f float_ops =
  f_lit :: "nat \<Rightarrow> 'f"
  f_add :: "'f \<Rightarrow> 'f \<Rightarrow> 'f"
  f_max :: "'f \<Rightarrow> 'f \<Rightarrow> 'f"
  f_gt :: "'f \<Rightarrow> 'f \<Rightarrow> bool"
  f_str :: "'f \<Rightarrow> string"

text \<open>
  One call of the HTTP client: the method, and what \<open>client.post\<close> or
  \<open>client.get\<close> was given (URL, \<open>content\<close>, \<open>headers\<close>, \<open>timeout\<close>). A call made
  without \<open>content\<close> and \<open>headers\<close> has the empty body and the empty dictionary.
\<close>

record 'f outbound =
  call_method :: string
  call_url :: string
  call_content :: bytes
  call_headers :: "string \<rightharpoonup> string"
  call_timeout :: 'f

text \<open>
  What the handlers read of the client's response object: \<open>response.content\<close>,
  \<open>response.status_code\<close> and the items of \<open>dict(response.headers)\<close> in order (one
  entry for each header name, the name in lower case, the value as the client decoded
  it). A header name is an HTTP token, a text of the Latin-1 range; a value that the
  client decoded as UTF-8 can hold any code point.
\<close>

record backend_response =
  content :: bytes
  status_code :: nat
  headers :: "(string \<times> pystr) list"

text \<open>The backend answers a call with a response or the client raises.\<close>

type_synonym 'f backend = "'f outbound \<Rightarrow> py_exception + backend_response"

datatype log_entry =
  Printed string
| LogInfo string
| LogError string py_exception

text \<open>The effects of a run: the lines logged and the calls issued to the backend.\<close>

record 'f world =
  logged :: "log_entry list"
  calls :: "'f outbound list"

definition print_line :: "string \<Rightarrow> 'f world \<Rightarrow> 'f world" where
  "print_line m s = s\<lparr>logged := logged s @ [Printed m]\<rparr>"

definition logger_info :: "string \<Rightarrow> 'f world \<Rightarrow> 'f world" where
  "logger_info m s = s\<lparr>logged := logged s @ [LogInfo m]\<rparr>"

definition logger_error :: "string \<Rightarrow> py_exception \<Rightarrow> 'f world \<Rightarrow> 'f world" where
  "logger_error m e s = s\<lparr>logged := logged s @ [LogError m e]\<rparr>"

text \<open>
  \<open>client.post(target_url, content=raw_body, headers=headers, timeout=t)\<close> and
  \<open>client.get(target_url, timeout=t)\<close>: the call is recorded and the backend answers it.
\<close>

definition client_post ::
  "'f backend \<Rightarrow> string \<Rightarrow> bytes \<Rightarrow> (string \<rightharpoonup> string) \<Rightarrow> 'f \<Rightarrow> 'f world
     \<Rightarrow> (py_exception + backend_response) \<times> 'f world" where
  "client_post backend target_url body hdrs t s =
     (let call = \<lparr>call_method = ''POST'', call_url = target_url, call_content = body,
                  call_headers = hdrs, call_timeout = t\<rparr>
      in (backend call, s\<lparr>calls := calls s @ [call]\<rparr>))"

definition client_get ::
  "'f backend \<Rightarrow> string \<Rightarrow> 'f \<Rightarrow> 'f world \<Rightarrow> (py_exception + backend_response) \<times> 'f world" where
  "client_get backend target_url t s =
     (let call = \<lparr>call_method = ''GET'', call_url = target_url, call_content = [],
                  call_headers = Map.empty, call_timeout = t\<rparr>
      in (backend call, s\<lparr>calls := calls s @ [call]\<rparr>))"

section \<open>The authentication middleware\<close>

text \<open>
  The middleware, in the order of the source: \<open>request.url.path\<close> is evaluated first
  (an exception of that evaluation leaves the middleware), then allow-list,
  configuration, presence, format, value. \<open>not DOCLING_API_TOKEN\<close> and
  \<open>not auth_header\<close> hold of \<open>None\<close> and of the empty string.
\<close>

definition format_error_detail :: string where
  "format_error_detail =
     ''Invalid Authorization header format. Expected '' @ [CHR 0x27] @ ''Bearer <token>'' @ [CHR 0x27]"

definition await_call_next ::
  "('f request \<Rightarrow> 'f world \<Rightarrow> response \<times> 'f world) \<Rightarrow> 'f request \<Rightarrow> 'f world
     \<Rightarrow> (py_exception + response) \<times> 'f world" where
  "await_call_next call_next request s = (case call_next request s of (r, s') \<Rightarrow> (Inr r, s'))"

definition authenticate_request ::
  "config \<Rightarrow> ('f request \<Rightarrow> 'f world \<Rightarrow> response \<times> 'f world) \<Rightarrow> 'f request \<Rightarrow> 'f world
     \<Rightarrow> (py_exception + response) \<times> 'f world" where
  "authenticate_request cfg call_next request s =
     (case req_url_path request of
        Inl e \<Rightarrow> (Inl e, s)
      | Inr path \<Rightarrow>
          if path \<in> set EXCLUDED_PATHS then await_call_next call_next request s
          else if DOCLING_API_TOKEN cfg = None \<or> DOCLING_API_TOKEN cfg = Some [] then
            (Inr (JSONResponse 503 [(''detail'', ''Service unavailable: Configuration error'')]),
             print_line ''CRITICAL: Proxy configuration error: DOCLING_API_TOKEN not set.'' s)
          else
            let auth_header = headers_get ''Authorization'' (req_headers request)
            in if auth_header = None \<or> auth_header = Some [] then
                 (Inr (JSONResponse 401 [(''detail'', ''Authorization header required'')]), s)
               else
                 let parts = split_none_1 (the auth_header)
                 in if length parts \<noteq> 2 \<or> str_lower (parts ! 0) \<noteq> ''bearer'' then
                      (Inr (JSONResponse 401 [(''detail'', format_error_detail)]), s)
                    else
                      let token = parts ! 1
                      in if Some token \<noteq> DOCLING_API_TOKEN cfg then
                           (Inr (JSONResponse 401 [(''detail'', ''Invalid authorization token'')]), s)
                         else await_call_next call_next request s)"

section \<open>The route handlers\<close>

definition health :: json where
  "health = [(''status'', ''ok'')]"

definition backend_error_detail :: string where
  "backend_error_detail = ''Error communicating with backend service''"

text \<open>
  The \<open>try\<close> block that ends each of the five handlers, the same text in all of
  them. Inside it are the client call and the construction of the \<open>Response\<close> from
  \<open>response.content\<close>, \<open>response.status_code\<close> and \<open>dict(response.headers)\<close>. On any
  exception of either, the error is logged with the target URL and
  \<open>HTTPException(500, "Error communicating with backend service")\<close> is raised.
\<close>

definition relay ::
  "string \<Rightarrow> (py_exception + backend_response) \<times> 'f world
     \<Rightarrow> (http_exception + response) \<times> 'f world" where
  "relay target_url rs =
     (case rs of
        (Inr response, s) \<Rightarrow>
          (case new_Response (content response) (status_code response) (headers response) of
             Inr r \<Rightarrow> (Inr r, s)
           | Inl e \<Rightarrow>
               (Inl (HTTPException 500 backend_error_detail),
                logger_error (''Error communicating with Docling API at '' @ target_url @ '':'') e s))
      | (Inl e, s) \<Rightarrow>
          (Inl (HTTPException 500 backend_error_detail),
           logger_error (''Error communicating with Docling API at '' @ target_url @ '':'') e s))"

definition proxy_convert_file ::
  "'f float_ops \<Rightarrow> config \<Rightarrow> 'f backend \<Rightarrow> 'f request \<Rightarrow> 'f world
     \<Rightarrow> (http_exception + response) \<times> 'f world" where
  "proxy_convert_file fl cfg backend request s =
     (let content_type = headers_get_default ''Content-Type'' [] (req_headers request);
          raw_body = req_body request;
          hdrs = [''Content-Type'' \<mapsto> content_type];
          target_url = DOCLING_API_URL cfg @ ''/v1alpha/convert/file''
      in relay target_url (client_post backend target_url raw_body hdrs (f_lit fl 300) s))"

definition proxy_convert_source ::
  "'f float_ops \<Rightarrow> config \<Rightarrow> 'f backend \<Rightarrow> 'f request \<Rightarrow> 'f world
     \<Rightarrow> (http_exception + response) \<times> 'f world" where
  "proxy_convert_source fl cfg backend request s =
     (let content_type = headers_get_default ''Content-Type'' [] (req_headers request);
          raw_body = req_body request;
          hdrs = [''Content-Type'' \<mapsto> content_type];
          target_url = DOCLING_API_URL cfg @ ''/v1alpha/convert/source''
      in relay target_url (client_post backend target_url raw_body hdrs (f_lit fl 300) s))"

definition proxy_convert_source_async ::
  "'f float_ops \<Rightarrow> config \<Rightarrow> 'f backend \<Rightarrow> 'f request \<Rightarrow> 'f world
     \<Rightarrow> (http_exception + response) \<times> 'f world" where
  "proxy_convert_source_async fl cfg backend request s =
     (let content_type = headers_get_default ''Content-Type'' [] (req_headers request);
          raw_body = req_body request;
          hdrs = [''Content-Type'' \<mapsto> content_type];
          target_url = DOCLING_API_URL cfg @ ''/v1alpha/convert/source/async'';
          s1 = logger_info (''Forwarding async source conversion request to '' @ target_url) s
      in relay target_url (client_post backend target_url raw_body hdrs (f_lit fl 30) s1))"

definition proxy_task_status ::
  "'f float_ops \<Rightarrow> config \<Rightarrow> 'f backend \<Rightarrow> string \<Rightarrow> 'f request \<Rightarrow> 'f \<Rightarrow> 'f world
     \<Rightarrow> (http_exception + response) \<times> 'f world" where
  "proxy_task_status fl cfg backend task_id request wait s =
     (let target_url0 = DOCLING_API_URL cfg @ ''/v1alpha/status/poll/'' @ task_id;
          target_url = (if f_gt fl wait (f_lit fl 0)
                        then target_url0 @ ''?wait='' @ f_str fl wait else target_url0);
          s1 = logger_info (''Polling task status from '' @ target_url) s
      in relay target_url
           (client_get backend target_url (f_max fl (f_add fl wait (f_lit fl 5)) (f_lit fl 30)) s1))"

definition proxy_task_result ::
  "'f float_ops \<Rightarrow> config \<Rightarrow> 'f backend \<Rightarrow> string \<Rightarrow> 'f request \<Rightarrow> 'f world
     \<Rightarrow> (http_exception + response) \<times> 'f world" where
  "proxy_task_result fl cfg backend task_id request s =
     (let target_url = DOCLING_API_URL cfg @ ''/v1alpha/result/'' @ task_id;
          s1 = logger_info (''Fetching task result from '' @ target_url) s
      in relay target_url (client_get backend target_url (f_lit fl 60) s1))"

section \<open>Route dispatch and the application\<close>

text \<open>
  A raised \<open>HTTPException(status_code, detail)\<close> reaches the caller as the JSON
  response \<open>{"detail": detail}\<close> with that status.
\<close>

definition http_exception_handler ::
  "(http_exception + response) \<times> 'f world \<Rightarrow> response \<times> 'f world" where
  "http_exception_handler rs =
     (case rs of
        (Inl (HTTPException code detail), s) \<Rightarrow> (JSONResponse code [(''detail'', detail)], s)
      | (Inr r, s) \<Rightarrow> (r, s))"

text \<open>
  A path parameter \<open>{task_id}\<close> after a fixed prefix: one segment, not empty, with no
  slash.
\<close>

definition path_param :: "string \<Rightarrow> string \<Rightarrow> string option" where
  "path_param pre p =
     (let rest = drop (length pre) p
      in if take (length pre) p = pre \<and> rest \<noteq> [] \<and> CHR ''/'' \<notin> set rest
         then Some rest else None)"

text \<open>
  The six routes the program declares, matched by method and by the path of the
  request (\<open>req_path\<close>), as the framework dispatches them. The dictionary \<open>health\<close>
  returns becomes the JSON body of a 200 response. On the status poll route a \<open>wait\<close>
  that is not a float is answered by the framework and the handler does not run; an
  absent one is \<open>0.0\<close>. A request that matches none of the six is answered by the
  framework too (\<open>fw\<close>: its documentation pages and its own error responses), which
  issues no backend call.
\<close>

definition router ::
  "'f float_ops \<Rightarrow> config \<Rightarrow> 'f backend \<Rightarrow> ('f request \<Rightarrow> response) \<Rightarrow> 'f request \<Rightarrow> 'f world
     \<Rightarrow> response \<times> 'f world" where
  "router fl cfg backend fw request s =
     (if req_method request = ''GET'' \<and> req_path request = ''/health'' then
        (JSONResponse 200 health, s)
      else if req_method request = ''POST'' \<and> req_path request = ''/convert/file'' then
        http_exception_handler (proxy_convert_file fl cfg backend request s)
      else if req_method request = ''POST'' \<and> req_path request = ''/convert/source'' then
        http_exception_handler (proxy_convert_source fl cfg backend request s)
      else if req_method request = ''POST'' \<and> req_path request = ''/convert/source/async'' then
        http_exception_handler (proxy_convert_source_async fl cfg backend request s)
      else if req_method request = ''GET'' \<and> path_param ''/status/poll/'' (req_path request) \<noteq> None then
        (case req_wait request of
           WaitInvalid \<Rightarrow> (fw request, s)
         | WaitAbsent \<Rightarrow>
             http_exception_handler
               (proxy_task_status fl cfg backend (the (path_param ''/status/poll/'' (req_path request)))
                  request (f_lit fl 0) s)
         | WaitValue wait \<Rightarrow>
             http_exception_handler
               (proxy_task_status fl cfg backend (the (path_param ''/status/poll/'' (req_path request)))
                  request wait s))
      else if req_method request = ''GET'' \<and> path_param ''/result/'' (req_path request) \<noteq> None then
        http_exception_handler
          (proxy_task_result fl cfg backend (the (path_param ''/result/'' (req_path request)))
             request s)
      else (fw request, s))"

text \<open>
  An exception that leaves the middleware is answered by the framework with the
  plain-text response \<open>Internal Server Error\<close>, status 500.
\<close>

definition server_error_middleware ::
  "(py_exception + response) \<times> 'f world \<Rightarrow> response \<times> 'f world" where
  "server_error_middleware rs =
     (case rs of
        (Inl e, s) \<Rightarrow> (PlainTextResponse 500 ''Internal Server Error'', s)
      | (Inr r, s) \<Rightarrow> (r, s))"

definition app ::
  "'f float_ops \<Rightarrow> config \<Rightarrow> 'f backend \<Rightarrow> ('f request \<Rightarrow> response) \<Rightarrow> 'f request \<Rightarrow> 'f world
     \<Rightarrow> response \<times> 'f world" where
  "app fl cfg backend fw request s =
     server_error_middleware (authenticate_request cfg (router fl cfg backend fw) request s)"

section \<open>What the caller receives\<close>

text \<open>
  What the caller receives for an answer of the backend, once the handler's \<open>try\<close>
  block and the framework's handling of \<open>HTTPException\<close> have run.
\<close>

definition caller_receives :: "py_exception + backend_response \<Rightarrow> response" where
  "caller_receives b =
     (case b of
        Inl e \<Rightarrow> JSONResponse 500 [(''detail'', backend_error_detail)]
      | Inr r \<Rightarrow>
          (case new_Response (content r) (status_code r) (headers r) of
             Inl e \<Rightarrow> JSONResponse 500 [(''detail'', backend_error_detail)]
           | Inr x \<Rightarrow> x))"

section \<open>Example inputs\<close>

text \<open>
  Concrete inputs on which the theorems below are evaluated. \<open>whole_floats\<close> reads the
  float operations on whole numbers of seconds, printed as Python prints \<open>3.0\<close>.
  \<open>ascii\<close> gives the code points of a text.
\<close>

definition whole_floats :: "nat float_ops" where
  "whole_floats = \<lparr>f_lit = (\<lambda>n. n), f_add = (+), f_max = max, f_gt = (\<lambda>a b. b < a),
                    f_str = (\<lambda>n. digits n @ ''.0'')\<rparr>"

definition ascii :: "string \<Rightarrow> pystr" where
  "ascii s = map of_char s"

definition example_config :: config where
  "example_config = \<lparr>DOCLING_API_TOKEN = Some ''s3cret'', DOCLING_API_URL = ''http://docling:3000''\<rparr>"


text \<open>
  A backend that answers the file conversion with a JSON body and its length, the
  result fetch with a body and no \<open>content-length\<close>, the asynchronous conversion with a
  header value that holds the euro sign (code point 8364), and is unreachable
  otherwise.
\<close>

definition example_backend :: "nat backend" where
  "example_backend call =
     (if call_url call = ''http://docling:3000/v1alpha/convert/file'' then
        Inr \<lparr>content = ''converted'', status_code = 200,
             headers = [(''content-type'', ascii ''application/json''),
                        (''content-length'', ascii ''9'')]\<rparr>
      else if call_url call = ''http://docling:3000/v1alpha/result/abc123'' then
        Inr \<lparr>content = ''DONE'', status_code = 200,
             headers = [(''content-type'', ascii ''text/plain'')]\<rparr>
      else if call_url call = ''http://docling:3000/v1alpha/convert/source/async'' then
        Inr \<lparr>content = ''{}'', status_code = 200, headers = [(''x-title'', [8364])]\<rparr>
      else Inl (PyException ''ConnectError'' ''All connection attempts failed''))"

definition example_fw :: "nat request \<Rightarrow> response" where
  "example_fw request = JSONResponse 404 [(''detail'', ''Not Found'')]"

definition empty_world :: "nat world" where
  "empty_world = \<lparr>logged = [], calls = []\<rparr>"

definition convert_file_request :: "nat request" where
  "convert_file_request =
     \<lparr>req_method = ''POST'', req_path = ''/convert/file'', req_url_path = Inr ''/convert/file'',
      req_headers = [(''host'', ''proxy.example''), (''authorization'', ''Bearer s3cret''),
                     (''content-type'', ''application/pdf'')],
      req_body = ''PDFDATA'', req_wait = WaitAbsent\<rparr>"

definition convert_source_request :: "nat request" where
  "convert_source_request =
     \<lparr>req_method = ''POST'', req_path = ''/convert/source'', req_url_path = Inr ''/convert/source'',
      req_headers = [(''host'', ''proxy.example''), (''authorization'', ''Bearer s3cret''),
                     (''content-type'', ''application/json'')],
      req_body = ''{}'', req_wait = WaitAbsent\<rparr>"


definition result_request :: "nat request" where
  "result_request =
     \<lparr>req_method = ''GET'', req_path = ''/result/abc123'', req_url_path = Inr ''/result/abc123'',
      req_headers = [(''host'', ''proxy.example''), (''authorization'', ''Bearer s3cret''),
                     (''content-type'', ''text/plain'')],
      req_body = ''DATA'', req_wait = WaitAbsent\<rparr>"



definition no_header_request :: "nat request" where
  "no_header_request =
     \<lparr>req_method = ''POST'', req_path = ''/convert/file'', req_url_path = Inr ''/convert/file'',
      req_headers = [(''host'', ''proxy.example''), (''content-type'', ''application/pdf'')],
      req_body = ''PDFDATA'', req_wait = WaitAbsent\<rparr>"

definition empty_header_request :: "nat request" where
  "empty_header_request =
     \<lparr>req_method = ''POST'', req_path = ''/convert/file'', req_url_path = Inr ''/convert/file'',
      req_headers = [(''host'', ''proxy.example''), (''authorization'', [])],
      req_body = ''PDFDATA'', req_wait = WaitAbsent\<rparr>"

definition basic_scheme_request :: "nat request" where
  "basic_scheme_request =
     \<lparr>req_method = ''POST'', req_path = ''/convert/file'', req_url_path = Inr ''/convert/file'',
      req_headers = [(''host'', ''proxy.example''), (''authorization'', ''Basic dXNlcjpwYXNz'')],
      req_body = ''PDFDATA'', req_wait = WaitAbsent\<rparr>"


text \<open>
  Requests whose query string is the one byte \<open>0xFF\<close>, which is not UTF-8: the
  evaluation of \<open>request.url\<close> raises on them.
\<close>

definition undecodable_query :: py_exception where
  "undecodable_query =
     PyException ''UnicodeDecodeError''
       ''utf-8 codec cannot decode byte 0xff in position 0: invalid start byte''"


definition bad_query_no_header_request :: "nat request" where
  "bad_query_no_header_request =
     \<lparr>req_method = ''POST'', req_path = ''/convert/file'', req_url_path = Inl undecodable_query,
      req_headers = [(''host'', ''proxy.example'')],
      req_body = ''PDFDATA'', req_wait = WaitAbsent\<rparr>"




section \<open>Evaluation lemmas\<close>

lemma str_lower_Authorization: "str_lower ''Authorization'' = ''authorization''"
  by code_simp

lemma str_lower_Content_Type: "str_lower ''Content-Type'' = ''content-type''"
  by code_simp

lemma split_Bearer_s3cret: "split_none_1 ''Bearer s3cret'' = [''Bearer'', ''s3cret'']"
  by code_simp



lemma split_Basic: "split_none_1 ''Basic dXNlcjpwYXNz'' = [''Basic'', ''dXNlcjpwYXNz'']"
  by code_simp

lemma str_lower_Basic: "str_lower ''Basic'' = ''basic''"
  by code_simp

section \<open>What each handler does\<close>

lemma relay_calls: "calls (snd (relay u rs)) = calls (snd rs)"
  by (cases rs) (auto simp: relay_def logger_error_def split: sum.splits)

lemma handled_relay:
  "\<exists>s1. http_exception_handler (relay u (b, s0)) = (caller_receives b, s1) \<and> calls s1 = calls s0"
  by (auto simp: relay_def http_exception_handler_def caller_receives_def logger_error_def
      split: sum.splits)

text \<open>
  What a handler's run amounts to: one call, whose fields are written out, and what
  the caller receives for the backend's answer to it.
\<close>

lemma handled_convert_file:
  "\<exists>s1. http_exception_handler (proxy_convert_file fl cfg backend request s)
           = (caller_receives (backend
           \<lparr>call_method = ''POST'', call_url = DOCLING_API_URL cfg @ ''/v1alpha/convert/file'',
            call_content = req_body request,
            call_headers = [''Content-Type'' \<mapsto> headers_get_default ''Content-Type'' [] (req_headers request)],
            call_timeout = f_lit fl 300\<rparr>), s1)
       \<and> calls s1 = calls s @
          [\<lparr>call_method = ''POST'', call_url = DOCLING_API_URL cfg @ ''/v1alpha/convert/file'',
            call_content = req_body request,
            call_headers = [''Content-Type'' \<mapsto> headers_get_default ''Content-Type'' [] (req_headers request)],
            call_timeout = f_lit fl 300\<rparr>]"
  unfolding proxy_convert_file_def client_post_def Let_def
  by (rule handled_relay[THEN exE]) (auto simp: logger_info_def)

lemma handled_convert_source:
  "\<exists>s1. http_exception_handler (proxy_convert_source fl cfg backend request s)
           = (caller_receives (backend
           \<lparr>call_method = ''POST'', call_url = DOCLING_API_URL cfg @ ''/v1alpha/convert/source'',
            call_content = req_body request,
            call_headers = [''Content-Type'' \<mapsto> headers_get_default ''Content-Type'' [] (req_headers request)],
            call_timeout = f_lit fl 300\<rparr>), s1)
       \<and> calls s1 = calls s @
          [\<lparr>call_method = ''POST'', call_url = DOCLING_API_URL cfg @ ''/v1alpha/convert/source'',
            call_content = req_body request,
            call_headers = [''Content-Type'' \<mapsto> headers_get_default ''Content-Type'' [] (req_headers request)],
            call_timeout = f_lit fl 300\<rparr>]"
  unfolding proxy_convert_source_def client_post_def Let_def
  by (rule handled_relay[THEN exE]) (auto simp: logger_info_def)

lemma handled_convert_source_async:
  "\<exists>s1. http_exception_handler (proxy_convert_source_async fl cfg backend request s)
           = (caller_receives (backend
           \<lparr>call_method = ''POST'', call_url = DOCLING_API_URL cfg @ ''/v1alpha/convert/source/async'',
            call_content = req_body request,
            call_headers = [''Content-Type'' \<mapsto> headers_get_default ''Content-Type'' [] (req_headers request)],
            call_timeout = f_lit fl 30\<rparr>), s1)
       \<and> calls s1 = calls s @
          [\<lparr>call_method = ''POST'', call_url = DOCLING_API_URL cfg @ ''/v1alpha/convert/source/async'',
            call_content = req_body request,
            call_headers = [''Content-Type'' \<mapsto> headers_get_default ''Content-Type'' [] (req_headers request)],
            call_timeout = f_lit fl 30\<rparr>]"
  unfolding proxy_convert_source_async_def client_post_def Let_def
  by (rule handled_relay[THEN exE]) (auto simp: logger_info_def)

lemma handled_task_status:
  "\<exists>s1. http_exception_handler (proxy_task_status fl cfg backend task_id request wait s)
           = (caller_receives (backend
           \<lparr>call_method = ''GET'',
            call_url = (if f_gt fl wait (f_lit fl 0)
                        then DOCLING_API_URL cfg @ ''/v1alpha/status/poll/'' @ task_id
                             @ ''?wait='' @ f_str fl wait
                        else DOCLING_API_URL cfg @ ''/v1alpha/status/poll/'' @ task_id),
            call_content = [], call_headers = Map.empty,
            call_timeout = f_max fl (f_add fl wait (f_lit fl 5)) (f_lit fl 30)\<rparr>), s1)
       \<and> calls s1 = calls s @
          [\<lparr>call_method = ''GET'',
            call_url = (if f_gt fl wait (f_lit fl 0)
                        then DOCLING_API_URL cfg @ ''/v1alpha/status/poll/'' @ task_id
                             @ ''?wait='' @ f_str fl wait
                        else DOCLING_API_URL cfg @ ''/v1alpha/status/poll/'' @ task_id),
            call_content = [], call_headers = Map.empty,
            call_timeout = f_max fl (f_add fl wait (f_lit fl 5)) (f_lit fl 30)\<rparr>]"
proof (cases "f_gt fl wait (f_lit fl 0)")
  case True
  show ?thesis
    using True
      handled_relay[of "DOCLING_API_URL cfg @ ''/v1alpha/status/poll/'' @ task_id @ ''?wait='' @ f_str fl wait"
        "backend \<lparr>call_method = ''GET'',
            call_url = DOCLING_API_URL cfg @ ''/v1alpha/status/poll/'' @ task_id
                             @ ''?wait='' @ f_str fl wait,
            call_content = [], call_headers = Map.empty,
            call_timeout = f_max fl (f_add fl wait (f_lit fl 5)) (f_lit fl 30)\<rparr>"
        "(logger_info (''Polling task status from '' @ DOCLING_API_URL cfg @ ''/v1alpha/status/poll/''
            @ task_id @ ''?wait='' @ f_str fl wait) s)
         \<lparr>calls := calls s @ [\<lparr>call_method = ''GET'',
            call_url = DOCLING_API_URL cfg @ ''/v1alpha/status/poll/'' @ task_id
                             @ ''?wait='' @ f_str fl wait,
            call_content = [], call_headers = Map.empty,
            call_timeout = f_max fl (f_add fl wait (f_lit fl 5)) (f_lit fl 30)\<rparr>]\<rparr>"]
    by (simp add: proxy_task_status_def client_get_def Let_def logger_info_def)
next
  case False
  show ?thesis
    using False
      handled_relay[of "DOCLING_API_URL cfg @ ''/v1alpha/status/poll/'' @ task_id"
        "backend \<lparr>call_method = ''GET'',
            call_url = DOCLING_API_URL cfg @ ''/v1alpha/status/poll/'' @ task_id,
            call_content = [], call_headers = Map.empty,
            call_timeout = f_max fl (f_add fl wait (f_lit fl 5)) (f_lit fl 30)\<rparr>"
        "(logger_info (''Polling task status from '' @ DOCLING_API_URL cfg @ ''/v1alpha/status/poll/''
            @ task_id) s)
         \<lparr>calls := calls s @ [\<lparr>call_method = ''GET'',
            call_url = DOCLING_API_URL cfg @ ''/v1alpha/status/poll/'' @ task_id,
            call_content = [], call_headers = Map.empty,
            call_timeout = f_max fl (f_add fl wait (f_lit fl 5)) (f_lit fl 30)\<rparr>]\<rparr>"]
    by (simp add: proxy_task_status_def client_get_def Let_def logger_info_def)
qed

lemma handled_task_result:
  "\<exists>s1. http_exception_handler (proxy_task_result fl cfg backend task_id request s)
           = (caller_receives (backend
           \<lparr>call_method = ''GET'',
            call_url = DOCLING_API_URL cfg @ ''/v1alpha/result/'' @ task_id,
            call_content = [], call_headers = Map.empty, call_timeout = f_lit fl 60\<rparr>), s1)
       \<and> calls s1 = calls s @
          [\<lparr>call_method = ''GET'',
            call_url = DOCLING_API_URL cfg @ ''/v1alpha/result/'' @ task_id,
            call_content = [], call_headers = Map.empty, call_timeout = f_lit fl 60\<rparr>]"
  unfolding proxy_task_result_def client_get_def Let_def
  by (rule handled_relay[THEN exE]) (auto simp: logger_info_def)

text \<open>
  One run of the router: either no backend call is issued, or exactly one is, and the
  response is what the caller receives for the backend's answer to it.
\<close>

lemma router_outcome:
  "calls (snd (router fl cfg backend fw request s)) = calls s
   \<or> (\<exists>call. calls (snd (router fl cfg backend fw request s)) = calls s @ [call]
          \<and> fst (router fl cfg backend fw request s) = caller_receives (backend call)
          \<and> call_method call = req_method request
          \<and> CHR ''/'' \<in> set (call_url call)
          \<and> call_content call = (if req_method request = ''POST'' then req_body request else [])
          \<and> call_headers call
              = (if req_method request = ''POST''
                 then [''Content-Type'' \<mapsto> headers_get_default ''Content-Type'' [] (req_headers request)]
                 else Map.empty))"
proof -
  define P :: "response \<times> 'a world \<Rightarrow> bool" where
    "P rs \<longleftrightarrow>
       calls (snd rs) = calls s
       \<or> (\<exists>call. calls (snd rs) = calls s @ [call]
            \<and> fst rs = caller_receives (backend call)
            \<and> call_method call = req_method request
            \<and> CHR ''/'' \<in> set (call_url call)
            \<and> call_content call = (if req_method request = ''POST'' then req_body request else [])
            \<and> call_headers call
                = (if req_method request = ''POST''
                   then [''Content-Type'' \<mapsto> headers_get_default ''Content-Type'' [] (req_headers request)]
                   else Map.empty))" for rs
  have quiet: "P (r, s)" for r
    by (simp add: P_def)
  have h_file: "P (http_exception_handler (proxy_convert_file fl cfg backend request s))"
    if "req_method request = ''POST''"
    using handled_convert_file[of fl cfg backend request s] that
    unfolding P_def by (elim exE conjE, intro disjI2) auto
  have h_source: "P (http_exception_handler (proxy_convert_source fl cfg backend request s))"
    if "req_method request = ''POST''"
    using handled_convert_source[of fl cfg backend request s] that
    unfolding P_def by (elim exE conjE, intro disjI2) auto
  have h_async: "P (http_exception_handler (proxy_convert_source_async fl cfg backend request s))"
    if "req_method request = ''POST''"
    using handled_convert_source_async[of fl cfg backend request s] that
    unfolding P_def by (elim exE conjE, intro disjI2) auto
  have h_status: "P (http_exception_handler (proxy_task_status fl cfg backend t request w s))"
    if "req_method request = ''GET''" for t w
    using handled_task_status[of fl cfg backend t request w s] that
    unfolding P_def by (elim exE conjE, intro disjI2) auto
  have h_result: "P (http_exception_handler (proxy_task_result fl cfg backend t request s))"
    if "req_method request = ''GET''" for t
    using handled_task_result[of fl cfg backend t request s] that
    unfolding P_def by (elim exE conjE, intro disjI2) auto
  have "P (router fl cfg backend fw request s)"
    unfolding router_def using quiet h_file h_source h_async h_status h_result
    by (simp split: wait_param.splits)
  then show ?thesis
    unfolding P_def by simp
qed

lemma router_answer:
  assumes "calls (snd (router fl cfg backend fw request s)) = calls s @ [call]"
  shows "fst (router fl cfg backend fw request s) = caller_receives (backend call)"
  using router_outcome[of fl cfg backend fw request s] assms by auto

text \<open>The calls a run of the router issues, written out route by route.\<close>

lemma router_calls:
  "calls (snd (router fl cfg backend fw request s))
     = calls s @
       (if req_method request = ''GET'' \<and> req_path request = ''/health'' then []
        else if req_method request = ''POST'' \<and> req_path request = ''/convert/file'' then
          [\<lparr>call_method = ''POST'', call_url = DOCLING_API_URL cfg @ ''/v1alpha/convert/file'',
            call_content = req_body request,
            call_headers = [''Content-Type'' \<mapsto> headers_get_default ''Content-Type'' [] (req_headers request)],
            call_timeout = f_lit fl 300\<rparr>]
        else if req_method request = ''POST'' \<and> req_path request = ''/convert/source'' then
          [\<lparr>call_method = ''POST'', call_url = DOCLING_API_URL cfg @ ''/v1alpha/convert/source'',
            call_content = req_body request,
            call_headers = [''Content-Type'' \<mapsto> headers_get_default ''Content-Type'' [] (req_headers request)],
            call_timeout = f_lit fl 300\<rparr>]
        else if req_method request = ''POST'' \<and> req_path request = ''/convert/source/async'' then
          [\<lparr>call_method = ''POST'', call_url = DOCLING_API_URL cfg @ ''/v1alpha/convert/source/async'',
            call_content = req_body request,
            call_headers = [''Content-Type'' \<mapsto> headers_get_default ''Content-Type'' [] (req_headers request)],
            call_timeout = f_lit fl 30\<rparr>]
        else if req_method request = ''GET'' \<and> path_param ''/status/poll/'' (req_path request) \<noteq> None then
          (case req_wait request of
             WaitInvalid \<Rightarrow> []
           | WaitAbsent \<Rightarrow>
               [\<lparr>call_method = ''GET'',
                 call_url = (if f_gt fl (f_lit fl 0) (f_lit fl 0)
                             then DOCLING_API_URL cfg @ ''/v1alpha/status/poll/'' @ (the (path_param ''/status/poll/'' (req_path request)))
                                  @ ''?wait='' @ f_str fl (f_lit fl 0)
                             else DOCLING_API_URL cfg @ ''/v1alpha/status/poll/'' @ (the (path_param ''/status/poll/'' (req_path request)))),
                 call_content = [], call_headers = Map.empty,
                 call_timeout = f_max fl (f_add fl (f_lit fl 0) (f_lit fl 5)) (f_lit fl 30)\<rparr>]
           | WaitValue wait \<Rightarrow>
               [\<lparr>call_method = ''GET'',
                 call_url = (if f_gt fl wait (f_lit fl 0)
                             then DOCLING_API_URL cfg @ ''/v1alpha/status/poll/'' @ (the (path_param ''/status/poll/'' (req_path request)))
                                  @ ''?wait='' @ f_str fl wait
                             else DOCLING_API_URL cfg @ ''/v1alpha/status/poll/'' @ (the (path_param ''/status/poll/'' (req_path request)))),
                 call_content = [], call_headers = Map.empty,
                 call_timeout = f_max fl (f_add fl wait (f_lit fl 5)) (f_lit fl 30)\<rparr>])
        else if req_method request = ''GET'' \<and> path_param ''/result/'' (req_path request) \<noteq> None then
          [\<lparr>call_method = ''GET'',
            call_url = DOCLING_API_URL cfg @ ''/v1alpha/result/'' @ (the (path_param ''/result/'' (req_path request))),
            call_content = [], call_headers = Map.empty, call_timeout = f_lit fl 60\<rparr>]
        else [])"
proof -
  have 1: "calls (snd (http_exception_handler (proxy_convert_file fl cfg backend request s)))
         = calls s @ [\<lparr>call_method = ''POST'', call_url = DOCLING_API_URL cfg @ ''/v1alpha/convert/file'',
            call_content = req_body request,
            call_headers = [''Content-Type'' \<mapsto> headers_get_default ''Content-Type'' [] (req_headers request)],
            call_timeout = f_lit fl 300\<rparr>]"
    using handled_convert_file[of fl cfg backend request s] by (elim exE conjE) simp
  have 2: "calls (snd (http_exception_handler (proxy_convert_source fl cfg backend request s)))
         = calls s @ [\<lparr>call_method = ''POST'', call_url = DOCLING_API_URL cfg @ ''/v1alpha/convert/source'',
            call_content = req_body request,
            call_headers = [''Content-Type'' \<mapsto> headers_get_default ''Content-Type'' [] (req_headers request)],
            call_timeout = f_lit fl 300\<rparr>]"
    using handled_convert_source[of fl cfg backend request s] by (elim exE conjE) simp
  have 3: "calls (snd (http_exception_handler (proxy_convert_source_async fl cfg backend request s)))
         = calls s @ [\<lparr>call_method = ''POST'', call_url = DOCLING_API_URL cfg @ ''/v1alpha/convert/source/async'',
            call_content = req_body request,
            call_headers = [''Content-Type'' \<mapsto> headers_get_default ''Content-Type'' [] (req_headers request)],
            call_timeout = f_lit fl 30\<rparr>]"
    using handled_convert_source_async[of fl cfg backend request s] by (elim exE conjE) simp
  have 4: "calls (snd (http_exception_handler (proxy_task_status fl cfg backend t request w s)))
         = calls s @ [\<lparr>call_method = ''GET'',
            call_url = (if f_gt fl w (f_lit fl 0)
                        then DOCLING_API_URL cfg @ ''/v1alpha/status/poll/'' @ t
                             @ ''?wait='' @ f_str fl w
                        else DOCLING_API_URL cfg @ ''/v1alpha/status/poll/'' @ t),
            call_content = [], call_headers = Map.empty,
            call_timeout = f_max fl (f_add fl w (f_lit fl 5)) (f_lit fl 30)\<rparr>]" for t w
    using handled_task_status[of fl cfg backend t request w s] by (elim exE conjE) simp
  have 5: "calls (snd (http_exception_handler (proxy_task_result fl cfg backend t request s)))
         = calls s @ [\<lparr>call_method = ''GET'',
            call_url = DOCLING_API_URL cfg @ ''/v1alpha/result/'' @ t,
            call_content = [], call_headers = Map.empty, call_timeout = f_lit fl 60\<rparr>]" for t
    using handled_task_result[of fl cfg backend t request s] by (elim exE conjE) simp
  show ?thesis
    unfolding router_def by (simp add: 1 2 3 4 5 split: wait_param.splits)
qed

lemma router_calls_cong:
  assumes "DOCLING_API_URL cfg' = DOCLING_API_URL cfg"
      and "req_method request' = req_method request"
      and "req_path request' = req_path request"
      and "req_body request' = req_body request"
      and "req_wait request' = req_wait request"
      and "headers_get ''Content-Type'' (req_headers request')
             = headers_get ''Content-Type'' (req_headers request)"
  shows "calls (snd (router fl cfg' backend' fw' request' s))
           = calls (snd (router fl cfg backend fw request s))"
  unfolding router_calls using assms
  by (simp add: headers_get_default_def split: wait_param.splits)

text \<open>The response of a run does not depend on the effects recorded before it.\<close>

lemma router_fst:
  "fst (router fl cfg backend fw request a) = fst (router fl cfg backend fw request b)"
proof -
  have 1: "fst (http_exception_handler (proxy_convert_file fl cfg backend request a))
         = fst (http_exception_handler (proxy_convert_file fl cfg backend request b))"
    using handled_convert_file[of fl cfg backend request a]
      handled_convert_file[of fl cfg backend request b]
    by (elim exE conjE) simp
  have 2: "fst (http_exception_handler (proxy_convert_source fl cfg backend request a))
         = fst (http_exception_handler (proxy_convert_source fl cfg backend request b))"
    using handled_convert_source[of fl cfg backend request a]
      handled_convert_source[of fl cfg backend request b]
    by (elim exE conjE) simp
  have 3: "fst (http_exception_handler (proxy_convert_source_async fl cfg backend request a))
         = fst (http_exception_handler (proxy_convert_source_async fl cfg backend request b))"
    using handled_convert_source_async[of fl cfg backend request a]
      handled_convert_source_async[of fl cfg backend request b]
    by (elim exE conjE) simp
  have 4: "fst (http_exception_handler (proxy_task_status fl cfg backend t request w a))
         = fst (http_exception_handler (proxy_task_status fl cfg backend t request w b))" for t w
    using handled_task_status[of fl cfg backend t request w a]
      handled_task_status[of fl cfg backend t request w b]
    by (elim exE conjE) simp
  have 5: "fst (http_exception_handler (proxy_task_result fl cfg backend t request a))
         = fst (http_exception_handler (proxy_task_result fl cfg backend t request b))" for t
    using handled_task_result[of fl cfg backend t request a]
      handled_task_result[of fl cfg backend t request b]
    by (elim exE conjE) simp
  show ?thesis
    unfolding router_def by (auto simp add: 1 2 3 4 5 split: wait_param.splits)
qed

section \<open>What the middleware does\<close>

lemma str_lower_Bearer: "str_lower ''Bearer'' = ''bearer''"
  by code_simp

lemma split_none_1_nonempty: "split_none_1 h = x # xs \<Longrightarrow> h \<noteq> []"
  by (auto simp: split_none_1_def)

text \<open>A request that passes the middleware is answered by the router.\<close>

lemma app_allow_listed:
  assumes "req_url_path request = Inr p" and "p \<in> set EXCLUDED_PATHS"
  shows "app fl cfg backend fw request s = router fl cfg backend fw request s"
  using assms
  by (simp add: app_def authenticate_request_def await_call_next_def server_error_middleware_def
      split: prod.splits)

lemma app_authorized:
  assumes "req_url_path request = Inr p"
      and "DOCLING_API_TOKEN cfg = Some secret" and "secret \<noteq> []"
      and "headers_get ''Authorization'' (req_headers request) = Some h"
      and "split_none_1 h = [scheme, secret]"
      and "str_lower scheme = str_lower ''Bearer''"
  shows "app fl cfg backend fw request s = router fl cfg backend fw request s"
proof (cases "p \<in> set EXCLUDED_PATHS")
  case True
  with assms(1) show ?thesis by (rule app_allow_listed)
next
  case False
  with assms split_none_1_nonempty[OF assms(5)] show ?thesis
    by (simp add: app_def authenticate_request_def await_call_next_def server_error_middleware_def
        str_lower_Bearer split: prod.splits)
qed

lemma app_outcome:
  "app fl cfg backend fw request s = router fl cfg backend fw request s
   \<or> calls (snd (app fl cfg backend fw request s)) = calls s"
  by (auto simp: app_def authenticate_request_def await_call_next_def server_error_middleware_def
      print_line_def Let_def split: sum.splits prod.splits)

lemma app_fst:
  "fst (app fl cfg backend fw request a) = fst (app fl cfg backend fw request b)"
  using router_fst[of fl cfg backend fw request a b]
  by (auto simp: app_def authenticate_request_def await_call_next_def server_error_middleware_def
      Let_def split: sum.splits prod.splits)

lemma sublist_set: "sublist xs ys \<Longrightarrow> set xs \<subseteq> set ys"
  by (auto simp: sublist_def)

text \<open>
  A request on one of the five forwarding routes makes the router issue exactly one
  call, to the backend URL followed by \<open>/v1alpha\<close> and the path of the request, and
  answer with what the caller receives for the backend's answer to that call.
\<close>

lemma path_param_Some: "path_param pre p = Some t \<Longrightarrow> p = pre @ t"
  by (auto simp: path_param_def Let_def split: if_splits) (metis append_take_drop_id)

lemma path_param_health:
  "path_param ''/result/'' ''/health'' = None" "path_param ''/status/poll/'' ''/health'' = None"
  by code_simp+

lemma router_forwards:
  assumes "req_method request = ''POST''
             \<and> req_path request \<in> {''/convert/file'', ''/convert/source'', ''/convert/source/async''}
           \<or> req_method request = ''GET'' \<and> path_param ''/result/'' (req_path request) \<noteq> None
           \<or> req_method request = ''GET'' \<and> path_param ''/status/poll/'' (req_path request) \<noteq> None
             \<and> req_wait request \<noteq> WaitInvalid"
  shows "\<exists>call. calls (snd (router fl cfg backend fw request s)) = calls s @ [call]
           \<and> fst (router fl cfg backend fw request s) = caller_receives (backend call)
           \<and> call_method call = req_method request
           \<and> prefix (DOCLING_API_URL cfg @ ''/v1alpha'' @ req_path request) (call_url call)
           \<and> CHR ''/'' \<in> set (call_url call)"
proof -
  have "\<exists>call. calls (snd (router fl cfg backend fw request s)) = calls s @ [call]
           \<and> call_method call = req_method request
           \<and> prefix (DOCLING_API_URL cfg @ ''/v1alpha'' @ req_path request) (call_url call)
           \<and> CHR ''/'' \<in> set (call_url call)"
    using assms
  proof (elim disjE conjE)
    assume "req_method request = ''POST''"
      and "req_path request \<in> {''/convert/file'', ''/convert/source'', ''/convert/source/async''}"
    then show ?thesis
      unfolding router_calls by auto
  next
    assume m: "req_method request = ''GET''"
      and "path_param ''/result/'' (req_path request) \<noteq> None"
    then obtain t where t: "path_param ''/result/'' (req_path request) = Some t"
      by auto
    then have p: "req_path request = ''/result/'' @ t"
      by (rule path_param_Some)
    have "req_path request \<noteq> ''/health''"
      using t path_param_health(1) by auto
    moreover have "path_param ''/status/poll/'' (req_path request) = None"
      unfolding p by (simp add: path_param_def)
    ultimately show ?thesis
      unfolding router_calls using m t by (simp add: p)
  next
    assume m: "req_method request = ''GET''"
      and "path_param ''/status/poll/'' (req_path request) \<noteq> None"
      and w: "req_wait request \<noteq> WaitInvalid"
    then obtain t where t: "path_param ''/status/poll/'' (req_path request) = Some t"
      by auto
    then have p: "req_path request = ''/status/poll/'' @ t"
      by (rule path_param_Some)
    have "req_path request \<noteq> ''/health''"
      using t path_param_health(2) by auto
    then show ?thesis
      unfolding router_calls using m t w
      by (cases "req_wait request") (simp_all add: p)
  qed
  then obtain call where c: "calls (snd (router fl cfg backend fw request s)) = calls s @ [call]"
      "call_method call = req_method request"
      "prefix (DOCLING_API_URL cfg @ ''/v1alpha'' @ req_path request) (call_url call)"
      "CHR ''/'' \<in> set (call_url call)"
    by blast
  from router_answer[OF c(1)] c show ?thesis
    by blast
qed

text \<open>The run of the example file conversion, evaluated.\<close>

lemma run_convert_file:
  "app whole_floats example_config example_backend example_fw convert_file_request empty_world
     = router whole_floats example_config example_backend example_fw convert_file_request empty_world"
  by (rule app_authorized[where secret="''s3cret''" and h="''Bearer s3cret''" and scheme="''Bearer''"])
     (simp_all add: convert_file_request_def example_config_def headers_get_def
        str_lower_Authorization split_Bearer_s3cret)

lemma calls_convert_file:
  "calls (snd (router whole_floats example_config example_backend example_fw convert_file_request
                 empty_world))
     = [\<lparr>call_method = ''POST'', call_url = ''http://docling:3000/v1alpha/convert/file'',
         call_content = ''PDFDATA'', call_headers = [''Content-Type'' \<mapsto> ''application/pdf''],
         call_timeout = 300\<rparr>]"
  unfolding router_calls
  by (simp add: convert_file_request_def example_config_def empty_world_def whole_floats_def
      headers_get_default_def headers_get_def str_lower_Content_Type)

lemma fst_convert_file:
  "fst (app whole_floats example_config example_backend example_fw convert_file_request empty_world)
     = Response ''converted'' 200 [(''content-type'', ''application/json''), (''content-length'', ''9'')]"
  by code_simp

section \<open>Authentication\<close>







text \<open>
  Claim C4, as stated, with the secret configured, at two requests to the protected
  path \<open>/convert/file\<close>. The first has an \<open>Authorization\<close> header with an empty value:
  the value does not split into two tokens, and the answer is the header-required
  message, not the format-error message. The second has no \<open>Authorization\<close> header and
  a query string that is not UTF-8: the answer is the framework's 500, not a 401.
\<close>

theorem header_checks_not_as_claimed:
  "DOCLING_API_TOKEN example_config = Some ''s3cret''
   \<and> req_path empty_header_request = ''/convert/file''
   \<and> req_path bad_query_no_header_request = ''/convert/file''
   \<and> ''/convert/file'' \<notin> set EXCLUDED_PATHS
   \<and> headers_get ''Authorization'' (req_headers empty_header_request) = Some []
   \<and> length (split_none_1 []) \<noteq> 2
   \<and> fst (app whole_floats example_config example_backend example_fw empty_header_request empty_world)
       = JSONResponse 401 [(''detail'', ''Authorization header required'')]
   \<and> fst (app whole_floats example_config example_backend example_fw empty_header_request empty_world)
       \<noteq> JSONResponse 401 [(''detail'', format_error_detail)]
   \<and> headers_get ''Authorization'' (req_headers bad_query_no_header_request) = None
   \<and> fst (app whole_floats example_config example_backend example_fw bad_query_no_header_request
             empty_world)
       = PlainTextResponse 500 ''Internal Server Error''"
  by code_simp

text \<open>
  Claim C4, amended. For a request whose URL path, as the middleware reads it
  (\<open>request.url.path\<close>), is obtained and is not on the allow-list, with the secret
  configured: a request with no \<open>Authorization\<close> header, or with one whose value is
  empty, is answered 401 with the header-required message; a request whose header
  value is not empty and does not split into exactly two tokens with the first equal
  to "Bearer" without regard to case is answered 401 with the format-error message;
  and the three 401 messages are pairwise distinct.
\<close>

theorem header_presence_and_format_401:
  assumes "req_url_path request = Inr p"
      and "p \<notin> set EXCLUDED_PATHS"
      and "DOCLING_API_TOKEN cfg = Some secret" and "secret \<noteq> []"
  shows "(headers_get ''Authorization'' (req_headers request) = None
            \<or> headers_get ''Authorization'' (req_headers request) = Some []
          \<longrightarrow> app fl cfg backend fw request s
                = (JSONResponse 401 [(''detail'', ''Authorization header required'')], s))
       \<and> (\<forall>h. headers_get ''Authorization'' (req_headers request) = Some h \<and> h \<noteq> []
              \<and> \<not> (length (split_none_1 h) = 2
                     \<and> str_lower (split_none_1 h ! 0) = str_lower ''Bearer'')
          \<longrightarrow> app fl cfg backend fw request s
                = (JSONResponse 401 [(''detail'', format_error_detail)], s))
       \<and> distinct [''Authorization header required'', format_error_detail,
                    ''Invalid authorization token'']"
proof -
  have d: "distinct [''Authorization header required'', format_error_detail,
                    ''Invalid authorization token'']"
    by (simp add: format_error_detail_def)
  show ?thesis
    using assms d
    by (auto simp: app_def authenticate_request_def server_error_middleware_def str_lower_Bearer)
qed

text \<open>
  Witness for C4 amended: a request with no \<open>Authorization\<close> header, and one with the
  scheme \<open>Basic\<close>.
\<close>

theorem header_presence_and_format_401_witness:
  "app whole_floats example_config example_backend example_fw no_header_request empty_world
     = (JSONResponse 401 [(''detail'', ''Authorization header required'')], empty_world)
   \<and> app whole_floats example_config example_backend example_fw basic_scheme_request empty_world
     = (JSONResponse 401 [(''detail'', format_error_detail)], empty_world)"
proof -
  have 1: "req_url_path no_header_request = Inr ''/convert/file''"
    by (simp add: no_header_request_def)
  have 2: "req_url_path basic_scheme_request = Inr ''/convert/file''"
    by (simp add: basic_scheme_request_def)
  have 3: "''/convert/file'' \<notin> set EXCLUDED_PATHS"
    by (simp add: EXCLUDED_PATHS_def)
  have 4: "DOCLING_API_TOKEN example_config = Some ''s3cret''"
    by (simp add: example_config_def)
  have 5: "''s3cret'' \<noteq> []" by simp
  have 6: "headers_get ''Authorization'' (req_headers no_header_request) = None"
    by (simp add: no_header_request_def headers_get_def str_lower_Authorization)
  have 7: "headers_get ''Authorization'' (req_headers basic_scheme_request) = Some ''Basic dXNlcjpwYXNz''"
    by (simp add: basic_scheme_request_def headers_get_def str_lower_Authorization)
  have a: "app whole_floats example_config example_backend example_fw no_header_request empty_world
     = (JSONResponse 401 [(''detail'', ''Authorization header required'')], empty_world)"
    using header_presence_and_format_401[OF 1 3 4 5, of whole_floats example_backend example_fw
        empty_world] 6
    by simp
  have b: "app whole_floats example_config example_backend example_fw basic_scheme_request empty_world
     = (JSONResponse 401 [(''detail'', format_error_detail)], empty_world)"
    using header_presence_and_format_401[OF 2 3 4 5, of whole_floats example_backend example_fw
        empty_world]
      7 split_Basic str_lower_Basic str_lower_Bearer
    by simp
  from a b show ?thesis by simp
qed




section \<open>The forwarding proxy\<close>




text \<open>
  Claim C5, as stated, at the task result route: the request has the body \<open>DATA\<close>
  and the content type \<open>text/plain\<close>, and the one call the handler issues has an
  empty body and no header.
\<close>

theorem get_route_sends_no_body_no_content_type:
  "req_body result_request = ''DATA''
   \<and> headers_get_default ''Content-Type'' [] (req_headers result_request) = ''text/plain''
   \<and> calls (snd (proxy_task_result whole_floats example_config example_backend ''abc123''
                    result_request empty_world))
       = [\<lparr>call_method = ''GET'', call_url = ''http://docling:3000/v1alpha/result/abc123'',
           call_content = [], call_headers = Map.empty, call_timeout = 60\<rparr>]
   \<and> call_content (hd (calls (snd (proxy_task_result whole_floats example_config example_backend
         ''abc123'' result_request empty_world)))) \<noteq> req_body result_request
   \<and> call_headers (hd (calls (snd (proxy_task_result whole_floats example_config example_backend
         ''abc123'' result_request empty_world)))) ''Content-Type'' = None"
  by (simp add: proxy_task_result_def client_get_def relay_calls logger_info_def
      whole_floats_def example_config_def empty_world_def result_request_def
      headers_get_default_def headers_get_def str_lower_Content_Type Let_def)

text \<open>
  Claim C5, amended. Each of the three POST handlers issues one call that carries the
  inbound body and exactly the header \<open>Content-Type\<close>, whose value is the inbound one
  or the empty string when the request has none. Each of the two GET handlers issues
  one call with an empty body and no header.
\<close>

theorem outbound_call_per_route:
  "calls (snd (proxy_convert_file fl cfg backend request s))
     = calls s @ [\<lparr>call_method = ''POST'', call_url = DOCLING_API_URL cfg @ ''/v1alpha/convert/file'',
                   call_content = req_body request,
                   call_headers = [''Content-Type'' \<mapsto>
                     (case headers_get ''Content-Type'' (req_headers request) of
                        None \<Rightarrow> [] | Some v \<Rightarrow> v)],
                   call_timeout = f_lit fl 300\<rparr>]
   \<and> calls (snd (proxy_convert_source fl cfg backend request s))
     = calls s @ [\<lparr>call_method = ''POST'', call_url = DOCLING_API_URL cfg @ ''/v1alpha/convert/source'',
                   call_content = req_body request,
                   call_headers = [''Content-Type'' \<mapsto>
                     (case headers_get ''Content-Type'' (req_headers request) of
                        None \<Rightarrow> [] | Some v \<Rightarrow> v)],
                   call_timeout = f_lit fl 300\<rparr>]
   \<and> calls (snd (proxy_convert_source_async fl cfg backend request s))
     = calls s @ [\<lparr>call_method = ''POST'',
                   call_url = DOCLING_API_URL cfg @ ''/v1alpha/convert/source/async'',
                   call_content = req_body request,
                   call_headers = [''Content-Type'' \<mapsto>
                     (case headers_get ''Content-Type'' (req_headers request) of
                        None \<Rightarrow> [] | Some v \<Rightarrow> v)],
                   call_timeout = f_lit fl 30\<rparr>]
   \<and> (\<exists>c. calls (snd (proxy_task_status fl cfg backend task_id request wait s)) = calls s @ [c]
          \<and> call_method c = ''GET'' \<and> call_content c = [] \<and> call_headers c = Map.empty)
   \<and> (\<exists>c. calls (snd (proxy_task_result fl cfg backend task_id request s)) = calls s @ [c]
          \<and> call_method c = ''GET'' \<and> call_content c = [] \<and> call_headers c = Map.empty)"
proof -
  have 1: "calls (snd (proxy_convert_file fl cfg backend request s))
     = calls s @ [\<lparr>call_method = ''POST'', call_url = DOCLING_API_URL cfg @ ''/v1alpha/convert/file'',
                   call_content = req_body request,
                   call_headers = [''Content-Type'' \<mapsto>
                     (case headers_get ''Content-Type'' (req_headers request) of
                        None \<Rightarrow> [] | Some v \<Rightarrow> v)],
                   call_timeout = f_lit fl 300\<rparr>]"
    by (simp add: proxy_convert_file_def client_post_def relay_calls headers_get_default_def Let_def)
  have 2: "calls (snd (proxy_convert_source fl cfg backend request s))
     = calls s @ [\<lparr>call_method = ''POST'', call_url = DOCLING_API_URL cfg @ ''/v1alpha/convert/source'',
                   call_content = req_body request,
                   call_headers = [''Content-Type'' \<mapsto>
                     (case headers_get ''Content-Type'' (req_headers request) of
                        None \<Rightarrow> [] | Some v \<Rightarrow> v)],
                   call_timeout = f_lit fl 300\<rparr>]"
    by (simp add: proxy_convert_source_def client_post_def relay_calls headers_get_default_def Let_def)
  have 3: "calls (snd (proxy_convert_source_async fl cfg backend request s))
     = calls s @ [\<lparr>call_method = ''POST'',
                   call_url = DOCLING_API_URL cfg @ ''/v1alpha/convert/source/async'',
                   call_content = req_body request,
                   call_headers = [''Content-Type'' \<mapsto>
                     (case headers_get ''Content-Type'' (req_headers request) of
                        None \<Rightarrow> [] | Some v \<Rightarrow> v)],
                   call_timeout = f_lit fl 30\<rparr>]"
    by (simp add: proxy_convert_source_async_def client_post_def relay_calls headers_get_default_def
        logger_info_def Let_def)
  have 4: "\<exists>c. calls (snd (proxy_task_status fl cfg backend task_id request wait s)) = calls s @ [c]
          \<and> call_method c = ''GET'' \<and> call_content c = [] \<and> call_headers c = Map.empty"
    by (simp add: proxy_task_status_def client_get_def relay_calls logger_info_def Let_def)
  have 5: "\<exists>c. calls (snd (proxy_task_result fl cfg backend task_id request s)) = calls s @ [c]
          \<and> call_method c = ''GET'' \<and> call_content c = [] \<and> call_headers c = Map.empty"
    by (simp add: proxy_task_result_def client_get_def relay_calls logger_info_def Let_def)
  from 1 2 3 4 5 show ?thesis
    by blast
qed

text \<open>
  Witness for C5 amended: the call of \<open>POST /convert/file\<close> with the body \<open>PDFDATA\<close>
  and the content type \<open>application/pdf\<close>.
\<close>

theorem outbound_call_per_route_witness:
  "calls (snd (proxy_convert_file whole_floats example_config example_backend convert_file_request
                 empty_world))
     = [\<lparr>call_method = ''POST'', call_url = ''http://docling:3000/v1alpha/convert/file'',
         call_content = ''PDFDATA'',
         call_headers = [''Content-Type'' \<mapsto> ''application/pdf''],
         call_timeout = 300\<rparr>]"
  using outbound_call_per_route[of whole_floats example_config example_backend convert_file_request
      empty_world]
  by (simp add: whole_floats_def example_config_def example_backend_def empty_world_def
      convert_file_request_def headers_get_default_def headers_get_def str_lower_Content_Type)

text \<open>
  Claim C6. A request that passes the middleware on one of the five forwarding routes
  makes the proxy issue exactly one backend call; when that call raises, whatever the
  exception is, the caller is answered 500 with the body
  \<open>{"detail": "Error communicating with backend service"}\<close>: the same response for
  every exception, and one in which the target URL of the call does not occur.
\<close>

theorem transport_failure_generic_500:
  assumes "req_url_path request = Inr p"
      and "p \<in> set EXCLUDED_PATHS
           \<or> (DOCLING_API_TOKEN cfg = Some secret \<and> secret \<noteq> []
              \<and> headers_get ''Authorization'' (req_headers request) = Some h
              \<and> split_none_1 h = [scheme, secret]
              \<and> str_lower scheme = str_lower ''Bearer'')"
      and "req_method request = ''POST''
             \<and> req_path request \<in> {''/convert/file'', ''/convert/source'', ''/convert/source/async''}
           \<or> req_method request = ''GET'' \<and> path_param ''/result/'' (req_path request) \<noteq> None
           \<or> req_method request = ''GET'' \<and> path_param ''/status/poll/'' (req_path request) \<noteq> None
             \<and> req_wait request \<noteq> WaitInvalid"
      and "app fl cfg backend fw request s = (resp, s')"
  shows "\<exists>call. calls s' = calls s @ [call]
           \<and> call_method call = req_method request
           \<and> prefix (DOCLING_API_URL cfg @ ''/v1alpha'' @ req_path request) (call_url call)
           \<and> (\<forall>e. backend call = Inl e \<longrightarrow>
                 resp = JSONResponse 500 [(''detail'', ''Error communicating with backend service'')]
                 \<and> response_status resp = 500)
           \<and> \<not> sublist (call_url call) ''Error communicating with backend service''
           \<and> \<not> sublist (call_url call) ''detail''"
proof -
  have "app fl cfg backend fw request s = router fl cfg backend fw request s"
    using assms(2)
  proof
    assume "p \<in> set EXCLUDED_PATHS"
    with assms(1) show ?thesis by (rule app_allow_listed)
  next
    assume "DOCLING_API_TOKEN cfg = Some secret \<and> secret \<noteq> []
              \<and> headers_get ''Authorization'' (req_headers request) = Some h
              \<and> split_none_1 h = [scheme, secret]
              \<and> str_lower scheme = str_lower ''Bearer''"
    with assms(1) show ?thesis
      using app_authorized[of request p cfg secret h scheme fl backend fw s] by blast
  qed
  with assms(4) have run: "router fl cfg backend fw request s = (resp, s')"
    by simp
  obtain call where c: "calls s' = calls s @ [call]"
      "resp = caller_receives (backend call)"
      "call_method call = req_method request"
      "prefix (DOCLING_API_URL cfg @ ''/v1alpha'' @ req_path request) (call_url call)"
      "CHR ''/'' \<in> set (call_url call)"
    using router_forwards[OF assms(3), of fl cfg backend fw s] unfolding run by auto
  from c(5) have "\<not> sublist (call_url call) ''Error communicating with backend service''"
     and "\<not> sublist (call_url call) ''detail''"
    by (auto dest!: sublist_set)
  with c show ?thesis
    by (intro exI[of _ call]) (auto simp: caller_receives_def backend_error_detail_def)
qed

text \<open>
  Witness for C6: \<open>POST /convert/source\<close> with the right token, the backend
  unreachable.
\<close>

theorem transport_failure_generic_500_witness:
  "fst (app whole_floats example_config example_backend example_fw convert_source_request empty_world)
     = JSONResponse 500 [(''detail'', ''Error communicating with backend service'')]
   \<and> map call_url (calls (snd (app whole_floats example_config example_backend example_fw
                                  convert_source_request empty_world)))
     = [''http://docling:3000/v1alpha/convert/source'']
   \<and> \<not> sublist ''http://docling:3000/v1alpha/convert/source''
         ''Error communicating with backend service''"
proof -
  let ?run = "app whole_floats example_config example_backend example_fw convert_source_request
                empty_world"
  have 1: "req_url_path convert_source_request = Inr ''/convert/source''"
    by (simp add: convert_source_request_def)
  have 2: "''/convert/source'' \<in> set EXCLUDED_PATHS
           \<or> (DOCLING_API_TOKEN example_config = Some ''s3cret'' \<and> ''s3cret'' \<noteq> []
              \<and> headers_get ''Authorization'' (req_headers convert_source_request) = Some ''Bearer s3cret''
              \<and> split_none_1 ''Bearer s3cret'' = [''Bearer'', ''s3cret'']
              \<and> str_lower ''Bearer'' = str_lower ''Bearer'')"
    by (simp add: example_config_def convert_source_request_def headers_get_def
        str_lower_Authorization split_Bearer_s3cret)
  have 3: "req_method convert_source_request = ''POST''
             \<and> req_path convert_source_request \<in> {''/convert/file'', ''/convert/source'', ''/convert/source/async''}
           \<or> req_method convert_source_request = ''GET''
             \<and> path_param ''/result/'' (req_path convert_source_request) \<noteq> None
           \<or> req_method convert_source_request = ''GET''
             \<and> path_param ''/status/poll/'' (req_path convert_source_request) \<noteq> None
             \<and> req_wait convert_source_request \<noteq> WaitInvalid"
    by (simp add: convert_source_request_def)
  have 4: "?run = (fst ?run, snd ?run)"
    by simp
  have urls: "map call_url (calls (snd ?run)) = [''http://docling:3000/v1alpha/convert/source'']"
    by code_simp
  obtain call where c: "calls (snd ?run) = calls empty_world @ [call]"
    "\<forall>e. example_backend call = Inl e \<longrightarrow>
       fst ?run = JSONResponse 500 [(''detail'', ''Error communicating with backend service'')]"
    "\<not> sublist (call_url call) ''Error communicating with backend service''"
    using transport_failure_generic_500[OF 1 2 3 4] by blast
  from c(1) urls have u: "call_url call = ''http://docling:3000/v1alpha/convert/source''"
    by (simp add: empty_world_def)
  then have "example_backend call
               = Inl (PyException ''ConnectError'' ''All connection attempts failed'')"
    by (simp add: example_backend_def)
  with c(2) have "fst ?run = JSONResponse 500 [(''detail'', ''Error communicating with backend service'')]"
    by blast
  with urls c(3) u show ?thesis
    by simp
qed

text \<open>
  Claim C9. Under one configuration and one backend function, the response to a
  request does not depend on the effects recorded before it: two runs of the same
  request give the same response, and so does a second run made after the first.
\<close>

theorem repeat_request_same_response:
  "fst (app fl cfg backend fw request s1) = fst (app fl cfg backend fw request s2)
   \<and> fst (app fl cfg backend fw request (snd (app fl cfg backend fw request s1)))
       = fst (app fl cfg backend fw request s1)"
  using app_fst[of fl cfg backend fw request s1 s2]
    app_fst[of fl cfg backend fw request "snd (app fl cfg backend fw request s1)" s1]
  by simp

text \<open>Witness for C9: \<open>POST /convert/file\<close> run a second time after its first run.\<close>

theorem repeat_request_same_response_witness:
  "fst (app whole_floats example_config example_backend example_fw convert_file_request
          (snd (app whole_floats example_config example_backend example_fw convert_file_request
                  empty_world)))
     = Response ''converted'' 200 [(''content-type'', ''application/json''), (''content-length'', ''9'')]"
  using repeat_request_same_response[of whole_floats example_config example_backend example_fw
      convert_file_request empty_world empty_world]
  by (simp add: fst_convert_file)

text \<open>
  Claim C10. Every call a run issues to the backend has the method of the request and
  carries, of the inbound headers, \<open>Content-Type\<close> alone when the method is POST and
  none otherwise; no header named \<open>Authorization\<close>, in any case of letters, is among
  them. The calls are the same for any two requests that agree on method, path, body,
  \<open>wait\<close> and \<open>Content-Type\<close>, and under any two configurations with the same backend
  URL: neither the \<open>Authorization\<close> header nor the secret enters a call.
\<close>

theorem outbound_headers_only_content_type:
  assumes "app fl cfg backend fw request s = (resp, s')"
  shows "(\<exists>cs. calls s' = calls s @ cs \<and> length cs \<le> 1
          \<and> (\<forall>c \<in> set cs.
                call_method c = req_method request
                \<and> call_headers c
                    = (if req_method request = ''POST''
                       then [''Content-Type'' \<mapsto>
                               headers_get_default ''Content-Type'' [] (req_headers request)]
                       else Map.empty)
                \<and> (\<forall>k. str_lower k = str_lower ''Authorization'' \<longrightarrow> call_headers c k = None)))
       \<and> (\<forall>cfg' request'.
            DOCLING_API_URL cfg' = DOCLING_API_URL cfg
            \<and> req_method request' = req_method request
            \<and> req_path request' = req_path request
            \<and> req_body request' = req_body request
            \<and> req_wait request' = req_wait request
            \<and> headers_get ''Content-Type'' (req_headers request')
                = headers_get ''Content-Type'' (req_headers request)
          \<longrightarrow> calls (snd (router fl cfg' backend fw request' s))
                = calls (snd (router fl cfg backend fw request s)))"
proof -
  have na: "call_headers c k = None"
    if "call_headers c
          = (if req_method request = ''POST''
             then [''Content-Type'' \<mapsto> headers_get_default ''Content-Type'' [] (req_headers request)]
             else Map.empty)"
      and "str_lower k = str_lower ''Authorization''" for c :: "'a outbound" and k
  proof -
    have "str_lower ''Content-Type'' \<noteq> str_lower ''Authorization''" by code_simp
    with that(2) have "k \<noteq> ''Content-Type''" by auto
    with that(1) show ?thesis by simp
  qed
  have "router fl cfg backend fw request s = (resp, s') \<or> calls s' = calls s"
    using app_outcome[of fl cfg backend fw request s] assms by auto
  then have first: "\<exists>cs. calls s' = calls s @ cs \<and> length cs \<le> 1
          \<and> (\<forall>c \<in> set cs.
                call_method c = req_method request
                \<and> call_headers c
                    = (if req_method request = ''POST''
                       then [''Content-Type'' \<mapsto>
                               headers_get_default ''Content-Type'' [] (req_headers request)]
                       else Map.empty)
                \<and> (\<forall>k. str_lower k = str_lower ''Authorization'' \<longrightarrow> call_headers c k = None))"
  proof
    assume r: "router fl cfg backend fw request s = (resp, s')"
    have "calls s' = calls s
       \<or> (\<exists>call. calls s' = calls s @ [call]
              \<and> call_method call = req_method request
              \<and> call_headers call
                  = (if req_method request = ''POST''
                     then [''Content-Type'' \<mapsto> headers_get_default ''Content-Type'' [] (req_headers request)]
                     else Map.empty))"
      using router_outcome[of fl cfg backend fw request s] unfolding r by auto
    then show ?thesis
    proof
      assume "calls s' = calls s"
      then show ?thesis by (intro exI[of _ "[]"]) simp
    next
      assume "\<exists>call. calls s' = calls s @ [call]
              \<and> call_method call = req_method request
              \<and> call_headers call
                  = (if req_method request = ''POST''
                     then [''Content-Type'' \<mapsto> headers_get_default ''Content-Type'' [] (req_headers request)]
                     else Map.empty)"
      then obtain call where c: "calls s' = calls s @ [call]"
          "call_method call = req_method request"
          "call_headers call
             = (if req_method request = ''POST''
                then [''Content-Type'' \<mapsto> headers_get_default ''Content-Type'' [] (req_headers request)]
                else Map.empty)"
        by blast
      have "\<forall>k. str_lower k = str_lower ''Authorization'' \<longrightarrow> call_headers call k = None"
        using na[OF c(3)] by blast
      with c show ?thesis
        by (intro exI[of _ "[call]"]) simp
    qed
  next
    assume "calls s' = calls s"
    then show ?thesis by (intro exI[of _ "[]"]) simp
  qed
  have second: "calls (snd (router fl cfg' backend fw request' s))
                = calls (snd (router fl cfg backend fw request s))"
    if "DOCLING_API_URL cfg' = DOCLING_API_URL cfg
            \<and> req_method request' = req_method request
            \<and> req_path request' = req_path request
            \<and> req_body request' = req_body request
            \<and> req_wait request' = req_wait request
            \<and> headers_get ''Content-Type'' (req_headers request')
                = headers_get ''Content-Type'' (req_headers request)" for cfg' request'
    using that router_calls_cong[of cfg' cfg request' request fl backend fw s backend fw] by blast
  from first second show ?thesis by blast
qed

text \<open>
  Witness for C10: the one call of \<open>POST /convert/file\<close>, whose request carries the
  header \<open>authorization: Bearer s3cret\<close>.
\<close>

theorem outbound_headers_only_content_type_witness:
  "calls (snd (app whole_floats example_config example_backend example_fw convert_file_request
                 empty_world)) \<noteq> []
   \<and> call_headers (hd (calls (snd (app whole_floats example_config example_backend example_fw
                                      convert_file_request empty_world))))
       = [''Content-Type'' \<mapsto> ''application/pdf'']
   \<and> call_headers (hd (calls (snd (app whole_floats example_config example_backend example_fw
                                      convert_file_request empty_world)))) ''Authorization'' = None
   \<and> call_headers (hd (calls (snd (app whole_floats example_config example_backend example_fw
                                      convert_file_request empty_world)))) ''authorization'' = None"
proof -
  let ?run = "app whole_floats example_config example_backend example_fw convert_file_request
                empty_world"
  let ?call = "\<lparr>call_method = ''POST'', call_url = ''http://docling:3000/v1alpha/convert/file'',
                   call_content = ''PDFDATA'',
                   call_headers = [''Content-Type'' \<mapsto> ''application/pdf''],
                   call_timeout = 300::nat\<rparr>"
  have run: "?run = (fst ?run, snd ?run)"
    by simp
  have evaluated: "calls (snd ?run) = [?call]"
    unfolding run_convert_file calls_convert_file by simp
  obtain cs where cs: "calls (snd ?run) = calls empty_world @ cs"
    "\<forall>c \<in> set cs. \<forall>k. str_lower k = str_lower ''Authorization'' \<longrightarrow> call_headers c k = None"
    using outbound_headers_only_content_type[OF run] by blast
  from cs(1) evaluated have "cs = [?call]"
    by (simp add: empty_world_def)
  with cs(2) have none: "\<forall>k. str_lower k = str_lower ''Authorization'' \<longrightarrow> call_headers ?call k = None"
    by simp
  have "str_lower ''authorization'' = str_lower ''Authorization''"
    by code_simp
  with none have "call_headers ?call ''Authorization'' = None"
    and "call_headers ?call ''authorization'' = None"
    by blast+
  with evaluated show ?thesis
    by simp
qed

end
